theory Spec2Isabelle
  imports Complex_Main "HOL-Library.Word" "HOL-Library.Monad_Syntax"
begin

section \<open>Data model of \<^verbatim>\<open>Include/PhotonMap.h\<close>\<close>

text \<open>
  The header works on \<^verbatim>\<open>float\<close> coordinates. The two kd-tree adapters use only
  subtraction, multiplication and addition of that type, so they are modelled over a
  type variable \<open>'a\<close> carrying exactly these operations: what is proved about them
  holds for every arithmetic, rounding included. \<^verbatim>\<open>size_t\<close> is used only as a
  vector index and a vector size and is modelled as \<open>nat\<close>; \<^verbatim>\<open>unsigned int\<close> is a
  \<open>32 word\<close> and the \<^verbatim>\<open>int dim\<close> argument a \<open>32 word\<close> too (read as signed by \<open>sint\<close>).
\<close>

text \<open>
  \<^verbatim>\<open>glm::vec3\<close>: three components, read in the code as \<^verbatim>\<open>.x\<close>, \<^verbatim>\<open>.y\<close>, \<^verbatim>\<open>.z\<close> and here as
  \<open>vec_x\<close>, \<open>vec_y\<close>, \<open>vec_z\<close>.
\<close>

record 'a vec3 =
  vec_x :: 'a
  vec_y :: 'a
  vec_z :: 'a

text \<open>\<^verbatim>\<open>PointCloud<T>::Point\<close>; its fields \<^verbatim>\<open>x, y, z\<close> are \<open>Point_x\<close>, \<open>Point_y\<close>, \<open>Point_z\<close>.\<close>

record 'a Point =
  Point_x :: 'a
  Point_y :: 'a
  Point_z :: 'a

text \<open>The constructor \<^verbatim>\<open>Point(glm::vec3 v) : x(v.x), y(v.y), z(v.z)\<close> at \<^verbatim>\<open>T = float\<close>.\<close>

definition Point_ctor :: "'a vec3 \<Rightarrow> 'a Point" where
  "Point_ctor v = \<lparr>Point_x = vec_x v, Point_y = vec_y v, Point_z = vec_z v\<rparr>"

record 'a PointCloud =
  pts :: "'a Point list"

record 'a PhotonInfo =
  color :: "'a vec3"
  position :: "'a vec3"
  direction :: "'a vec3"

text \<open>The inline constructor \<^verbatim>\<open>PhotonInfo(c, p, d) : color(c), position(p), direction(d)\<close>.\<close>

definition PhotonInfo_ctor :: "'a vec3 \<Rightarrow> 'a vec3 \<Rightarrow> 'a vec3 \<Rightarrow> 'a PhotonInfo" where
  "PhotonInfo_ctor c p d = \<lparr>color = c, position = p, direction = d\<rparr>"

text \<open>
  Modelled from the spec: the type \<^verbatim>\<open>Ray\<close> of a photon's beam. It is declared in
  \<^verbatim>\<open>Raytracer.h\<close>, which is not among the sources; the specification describes it as an
  origin point and a direction.
\<close>

record 'a Ray =
  origin :: "'a vec3"
  ray_direction :: "'a vec3"

text \<open>
  \<^verbatim>\<open>struct Photon\<close>: the fields \<^verbatim>\<open>beam\<close>, \<^verbatim>\<open>depth\<close>, \<^verbatim>\<open>absorbed\<close> and \<^verbatim>\<open>color\<close>; the last one is
  named \<open>photon_color\<close> here, \<open>color\<close> being the field of \<open>PhotonInfo\<close>.
\<close>

record 'a Photon =
  beam :: "'a Ray"
  depth :: "32 word"
  absorbed :: bool
  photon_color :: "'a vec3"

record 'a PhotonMapper =
  number_of_photons :: "32 word"
  number_of_bounces :: "32 word"
  gathered_photons :: "'a PhotonInfo list"
  photons :: "'a Photon list"

section \<open>Reading a vector or an array\<close>

text \<open>
  \<^verbatim>\<open>v[i]\<close> on a \<^verbatim>\<open>std::vector\<close> or through a pointer is defined only inside the storage.
  The model makes the read partial: \<open>None\<close> stands for the access outside it.
\<close>

definition at_index :: "'b list \<Rightarrow> nat \<Rightarrow> 'b option" where
  "at_index xs i = (if i < length xs then Some (xs ! i) else None)"

section \<open>The kd-tree adapter of \<^verbatim>\<open>PhotonMapper\<close>\<close>

definition kdtree_get_point_count :: "'a PhotonMapper \<Rightarrow> nat" where
  "kdtree_get_point_count m = length (gathered_photons m)"

text \<open>
  \<^verbatim>\<open>kdtree_distance(p1, idx_p2, size)\<close>: \<open>p1\<close> is the array behind the pointer, the
  third argument is not used by the code. In \<open>kdtree_get_pt\<close> the argument \<^verbatim>\<open>dim\<close> is
  written \<open>dim'\<close>.
\<close>

definition kdtree_distance ::
  "('a::{minus,plus,times}) PhotonMapper \<Rightarrow> 'a list \<Rightarrow> nat \<Rightarrow> nat \<Rightarrow> 'a option" where
  "kdtree_distance m p1 idx_p2 sz =
     do {
       a0 \<leftarrow> at_index p1 0;
       g0 \<leftarrow> at_index (gathered_photons m) idx_p2;
       let d0 = a0 - vec_x (position g0);
       a1 \<leftarrow> at_index p1 1;
       g1 \<leftarrow> at_index (gathered_photons m) idx_p2;
       let d1 = a1 - vec_y (position g1);
       a2 \<leftarrow> at_index p1 2;
       g2 \<leftarrow> at_index (gathered_photons m) idx_p2;
       let d2 = a2 - vec_z (position g2);
       Some (d0 * d0 + d1 * d1 + d2 * d2)
     }"

definition kdtree_get_pt :: "'a PhotonMapper \<Rightarrow> nat \<Rightarrow> 32 word \<Rightarrow> 'a option" where
  "kdtree_get_pt m idx dim' =
     (if dim' = 0 then map_option (\<lambda>g. vec_x (position g)) (at_index (gathered_photons m) idx)
      else if dim' = 1 then map_option (\<lambda>g. vec_y (position g)) (at_index (gathered_photons m) idx)
      else map_option (\<lambda>g. vec_z (position g)) (at_index (gathered_photons m) idx))"

text \<open>
  \<^verbatim>\<open>kdtree_get_bbox(BBOX& bb)\<close>: the box is passed by reference and the body does not
  touch it, so the model returns it as it came, beside the result.
\<close>

definition kdtree_get_bbox :: "'a PhotonMapper \<Rightarrow> 'bb \<Rightarrow> bool \<times> 'bb" where
  "kdtree_get_bbox m bb = (False, bb)"

section \<open>The kd-tree adapter of \<^verbatim>\<open>PointCloud\<close>\<close>

definition PointCloud_kdtree_get_point_count :: "'a PointCloud \<Rightarrow> nat" where
  "PointCloud_kdtree_get_point_count c = length (pts c)"

definition PointCloud_kdtree_distance ::
  "('a::{minus,plus,times}) PointCloud \<Rightarrow> 'a list \<Rightarrow> nat \<Rightarrow> nat \<Rightarrow> 'a option" where
  "PointCloud_kdtree_distance c p1 idx_p2 sz =
     do {
       a0 \<leftarrow> at_index p1 0;
       q0 \<leftarrow> at_index (pts c) idx_p2;
       let d0 = a0 - Point_x q0;
       a1 \<leftarrow> at_index p1 1;
       q1 \<leftarrow> at_index (pts c) idx_p2;
       let d1 = a1 - Point_y q1;
       a2 \<leftarrow> at_index p1 2;
       q2 \<leftarrow> at_index (pts c) idx_p2;
       let d2 = a2 - Point_z q2;
       Some (d0 * d0 + d1 * d1 + d2 * d2)
     }"

definition PointCloud_kdtree_get_pt :: "'a PointCloud \<Rightarrow> nat \<Rightarrow> 32 word \<Rightarrow> 'a option" where
  "PointCloud_kdtree_get_pt c idx dim' =
     (if dim' = 0 then map_option Point_x (at_index (pts c) idx)
      else if dim' = 1 then map_option Point_y (at_index (pts c) idx)
      else map_option Point_z (at_index (pts c) idx))"

definition PointCloud_kdtree_get_bbox :: "'a PointCloud \<Rightarrow> 'bb \<Rightarrow> bool \<times> 'bb" where
  "PointCloud_kdtree_get_bbox c bb = (False, bb)"

text \<open>
  Modelled from the spec: the bounding-box step of the index build, which belongs to the
  kd-tree library and is not among the sources. The build asks the adapter for a box
  first and keeps it when the answer is \<open>True\<close>; otherwise it runs its own standard
  computation over the points, which is the parameter \<open>standard\<close> here.
\<close>

definition build_bounding_box ::
  "('d \<Rightarrow> 'bb \<Rightarrow> bool \<times> 'bb) \<Rightarrow> ('d \<Rightarrow> 'bb) \<Rightarrow> 'd \<Rightarrow> 'bb \<Rightarrow> 'bb" where
  "build_bounding_box get_bbox standard d bb =
     (case get_bbox d bb of (True, bb') \<Rightarrow> bb' | (False, _) \<Rightarrow> standard d)"

section \<open>Photons and the photon map\<close>


text \<open>The inline accessors \<^verbatim>\<open>getDirection(i)\<close> and \<^verbatim>\<open>getEnergy(i)\<close> of \<^verbatim>\<open>PhotonMapper\<close>.\<close>

definition getDirection :: "'a PhotonMapper \<Rightarrow> nat \<Rightarrow> 'a vec3 option" where
  "getDirection m i = map_option direction (at_index (gathered_photons m) i)"

definition getEnergy :: "'a PhotonMapper \<Rightarrow> nat \<Rightarrow> 'a vec3 option" where
  "getEnergy m i = map_option color (at_index (gathered_photons m) i)"

text \<open>
  \<^verbatim>\<open>class PhotonMap\<close> holds the reference \<^verbatim>\<open>p\<close> (here \<open>PhotonMap_p\<close>) to its
  \<open>PhotonMapper\<close> and the kd-tree
  \<^verbatim>\<open>photon_map\<close> over it. The tree is an acceleration structure of the kd-tree library
  whose queries read the records through the adapter above; it carries no data of its
  own in the model. The object behind the reference is a field of the record, so a
  change of the mapper through the map would show as a change of the map.
\<close>

record 'a PhotonMap =
  PhotonMap_p :: "'a PhotonMapper"

text \<open>
  Modelled from the spec: the constructor \<^verbatim>\<open>PhotonMap(PhotonMapper* _p)\<close>, declared only.
  It binds the mapper and builds the index over all its records, once.
\<close>

definition PhotonMap_ctor :: "'a PhotonMapper \<Rightarrow> 'a PhotonMap" where
  "PhotonMap_ctor m = \<lparr>PhotonMap_p = m\<rparr>"

text \<open>
  Modelled from the spec: the squared distance of every stored record from the query
  point, in index order, as the k-nearest query of the missing \<^verbatim>\<open>findNNearestPoints\<close>
  sees them. Each distance is read through \<open>kdtree_distance\<close> with a query array of
  three coordinates.
\<close>

definition squared_distances ::
  "('a::{minus,plus,times}) PhotonMapper \<Rightarrow> 'a vec3 \<Rightarrow> (nat \<times> 'a) list" where
  "squared_distances m point =
     List.map_filter
       (\<lambda>i. map_option (Pair i)
              (kdtree_distance m [vec_x point, vec_y point, vec_z point] i 3))
       [0..<kdtree_get_point_count m]"

text \<open>
  Modelled from the spec: the body of \<^verbatim>\<open>PhotonMap::findNNearestPoints\<close>, which the header
  only declares. The query returns the \<open>number_of_results\<close> closest records by squared
  distance in ascending order, all records when there are fewer, and breaks ties by
  index order (the sort is stable and starts from index order). The two output vectors
  \<^verbatim>\<open>ret_index\<close> and \<^verbatim>\<open>out_dist_sqr\<close> are the result pair. Distances are compared in a
  linear order, that is, without NaN.
\<close>

definition findNNearestPoints ::
  "('a::{minus,plus,times,linorder}) PhotonMap \<Rightarrow> 'a vec3 \<Rightarrow> 32 word \<Rightarrow> nat list \<times> 'a list" where
  "findNNearestPoints pm point number_of_results =
     (let nearest = take (unat number_of_results)
                      (sort_key snd (squared_distances (PhotonMap_p pm) point))
      in (map fst nearest, map snd nearest))"

section \<open>Gathering radiance\<close>

text \<open>
  Modelled from the spec: the vector arithmetic of the \<^verbatim>\<open>glm\<close> library that the gather
  needs (zero, sum, negation, division by a scalar, dot product). Radiance is computed
  in the reals, with the real \<open>pi\<close> and \<open>sqrt\<close>.
\<close>

definition vec3_zero :: "real vec3" where
  "vec3_zero = \<lparr>vec_x = 0, vec_y = 0, vec_z = 0\<rparr>"

definition vec3_add :: "real vec3 \<Rightarrow> real vec3 \<Rightarrow> real vec3" where
  "vec3_add a b =
     \<lparr>vec_x = vec_x a + vec_x b, vec_y = vec_y a + vec_y b, vec_z = vec_z a + vec_z b\<rparr>"

definition vec3_neg :: "real vec3 \<Rightarrow> real vec3" where
  "vec3_neg a = \<lparr>vec_x = - vec_x a, vec_y = - vec_y a, vec_z = - vec_z a\<rparr>"

definition vec3_div :: "real vec3 \<Rightarrow> real \<Rightarrow> real vec3" where
  "vec3_div a s = \<lparr>vec_x = vec_x a / s, vec_y = vec_y a / s, vec_z = vec_z a / s\<rparr>"

definition vec3_dot :: "real vec3 \<Rightarrow> real vec3 \<Rightarrow> real" where
  "vec3_dot a b = vec_x a * vec_x b + vec_y a * vec_y b + vec_z a * vec_z b"

text \<open>
  Modelled from the spec: the two settings of the gather that the header does not fix,
  the number of neighbours asked of the index and the floor under the disk area.
\<close>

record gather_settings =
  neighbours :: "32 word"
  min_area :: real

text \<open>
  Modelled from the spec: the hemisphere filter of the missing \<^verbatim>\<open>gatherPhotons\<close>. A photon
  qualifies when the dot product of the normal and its reversed incoming direction is
  not negative.
\<close>

definition visible_hemisphere :: "real vec3 \<Rightarrow> real vec3 \<Rightarrow> bool" where
  "visible_hemisphere normal incoming = (0 \<le> vec3_dot normal (vec3_neg incoming))"

text \<open>
  Modelled from the spec: the accumulation loop of the missing \<^verbatim>\<open>gatherPhotons\<close> over the
  returned indices. It reads each photon through \<open>getDirection\<close> and \<open>getEnergy\<close> and
  adds the energy of those that pass the filter; a read outside the records is \<open>None\<close>.
\<close>

fun sum_energy ::
  "real PhotonMapper \<Rightarrow> real vec3 \<Rightarrow> real vec3 \<Rightarrow> nat list \<Rightarrow> real vec3 option" where
  "sum_energy m normal acc [] = Some acc"
| "sum_energy m normal acc (i # rest) =
     do {
       d \<leftarrow> getDirection m i;
       e \<leftarrow> getEnergy m i;
       sum_energy m normal (if visible_hemisphere normal d then vec3_add acc e else acc) rest
     }"

text \<open>
  Modelled from the spec: the body of \<^verbatim>\<open>PhotonMap::gatherPhotons\<close>, which the header only
  declares. It asks the index for the nearest photons, sums the energy of those that pass
  the hemisphere filter and divides by the area of the disk whose radius is the square
  root of the largest squared distance returned, the area being clamped from below by
  the floor. The member function is not \<^verbatim>\<open>const\<close>, so the model returns the map beside
  the radiance. A division by zero yields no radiance: \<open>None\<close>.
\<close>

definition gatherPhotons ::
  "gather_settings \<Rightarrow> real PhotonMap \<Rightarrow> real vec3 \<Rightarrow> real vec3 \<Rightarrow>
   real vec3 option \<times> real PhotonMap" where
  "gatherPhotons cfg pm point normal =
     (case findNNearestPoints pm point (neighbours cfg) of
        (ret_index, out_dist_sqr) \<Rightarrow>
          (do {
             energy \<leftarrow> sum_energy (PhotonMap_p pm) normal vec3_zero ret_index;
             let max_dist_sqr = fold max out_dist_sqr 0;
             let area = max (min_area cfg) (pi * (sqrt max_dist_sqr)\<^sup>2);
             if area = 0 then None else Some (vec3_div energy area)
           }, pm))"

section \<open>Emitting photons\<close>











section \<open>Example states\<close>

text \<open>Two stored photons, used to run the definitions on concrete input.\<close>

definition example_photons :: "real PhotonInfo list" where
  "example_photons =
     [PhotonInfo_ctor \<lparr>vec_x = 1, vec_y = 1, vec_z = 1\<rparr> \<lparr>vec_x = 1, vec_y = 2, vec_z = 3\<rparr>
        \<lparr>vec_x = 0, vec_y = 0, vec_z = -1\<rparr>,
      PhotonInfo_ctor \<lparr>vec_x = 1/2, vec_y = 1/4, vec_z = 0\<rparr> \<lparr>vec_x = 4, vec_y = 5, vec_z = 6\<rparr>
        \<lparr>vec_x = 0, vec_y = 0, vec_z = 1\<rparr>]"

definition example_mapper :: "real PhotonMapper" where
  "example_mapper =
     \<lparr>number_of_photons = 2, number_of_bounces = 3,
      gathered_photons = example_photons, photons = []\<rparr>"

definition example_cloud :: "real PointCloud" where
  "example_cloud = \<lparr>pts = map (\<lambda>g. Point_ctor (position g)) example_photons\<rparr>"

text \<open>A mapper that gathered nothing, and the settings of a gather of one neighbour.\<close>

definition empty_mapper :: "real PhotonMapper" where
  "empty_mapper =
     \<lparr>number_of_photons = 0, number_of_bounces = 3, gathered_photons = [], photons = []\<rparr>"

definition example_settings :: gather_settings where
  "example_settings = \<lparr>neighbours = 1, min_area = 1/1000\<rparr>"





section \<open>Basic facts\<close>

lemma at_index_Some: "i < length xs \<Longrightarrow> at_index xs i = Some (xs ! i)"
  by (simp add: at_index_def)

lemma at_index_None: "\<not> i < length xs \<Longrightarrow> at_index xs i = None"
  by (simp add: at_index_def)

lemma at_index_map: "at_index (map f xs) i = map_option f (at_index xs i)"
  by (simp add: at_index_def)

lemma kdtree_get_pt_out_of_range:
  "\<not> idx < kdtree_get_point_count m \<Longrightarrow> kdtree_get_pt m idx dim' = None"
  by (simp add: kdtree_get_pt_def kdtree_get_point_count_def at_index_None)

lemma kdtree_distance_out_of_range:
  "\<not> idx < kdtree_get_point_count m \<Longrightarrow> kdtree_distance m p idx sz = None"
  by (cases "at_index p 0")
     (simp_all add: kdtree_distance_def kdtree_get_point_count_def at_index_None)

lemma kdtree_distance_in_range:
  fixes m :: "('a::{minus,plus,times}) PhotonMapper"
  assumes "idx < length (gathered_photons m)"
  shows "kdtree_distance m [p0, p1, p2] idx sz =
     Some ((p0 - vec_x (position (gathered_photons m ! idx))) *
             (p0 - vec_x (position (gathered_photons m ! idx))) +
           (p1 - vec_y (position (gathered_photons m ! idx))) *
             (p1 - vec_y (position (gathered_photons m ! idx))) +
           (p2 - vec_z (position (gathered_photons m ! idx))) *
             (p2 - vec_z (position (gathered_photons m ! idx))))"
  using assms by (simp add: kdtree_distance_def at_index_def Let_def)

section \<open>The adapter of \<^verbatim>\<open>PhotonMapper\<close>\<close>

text \<open>
  C3. In every state of a \<open>PhotonMapper\<close>, \<open>kdtree_get_point_count\<close> is the number of
  \<open>PhotonInfo\<close> records held in \<open>gathered_photons\<close>; the other fields have no
  influence on it.
\<close>

theorem kdtree_get_point_count_is_size:
  "kdtree_get_point_count
     \<lparr>number_of_photons = n, number_of_bounces = b, gathered_photons = gs, photons = ps\<rparr>
   = length gs"
  by (simp add: kdtree_get_point_count_def)

text \<open>
  C10. For an index below \<open>kdtree_get_point_count\<close>, \<open>kdtree_get_pt\<close> is defined (every
  read of \<open>gathered_photons\<close> is inside the vector) for every value of the \<^verbatim>\<open>int\<close>
  argument: it is the x coordinate at 0, the y coordinate at 1 and the z coordinate at
  every other value, negative values and values above 2 included.
\<close>

theorem kdtree_get_pt_defined:
  assumes "idx < kdtree_get_point_count m"
  shows "kdtree_get_pt m idx 0 = Some (vec_x (position (gathered_photons m ! idx))) \<and>
         kdtree_get_pt m idx 1 = Some (vec_y (position (gathered_photons m ! idx))) \<and>
         (\<forall>d. d \<noteq> 0 \<and> d \<noteq> 1 \<longrightarrow>
            kdtree_get_pt m idx d = Some (vec_z (position (gathered_photons m ! idx))))"
  using assms
  by (simp add: kdtree_get_pt_def kdtree_get_point_count_def at_index_def)

theorem kdtree_get_pt_defined_witness:
  "(1::nat) < kdtree_get_point_count example_mapper \<and>
   kdtree_get_pt example_mapper 1 0 = Some 4 \<and>
   kdtree_get_pt example_mapper 1 1 = Some 5 \<and>
   kdtree_get_pt example_mapper 1 2 = Some 6 \<and>
   kdtree_get_pt example_mapper 1 7 = Some 6 \<and>
   kdtree_get_pt example_mapper 1 (- 1) = Some 6"
proof -
  have h: "(1::nat) < kdtree_get_point_count example_mapper"
    by (simp add: kdtree_get_point_count_def example_mapper_def example_photons_def)
  have z: "vec_z (position (gathered_photons example_mapper ! 1)) = 6"
          "vec_y (position (gathered_photons example_mapper ! 1)) = 5"
          "vec_x (position (gathered_photons example_mapper ! 1)) = 4"
    by (simp_all add: example_mapper_def example_photons_def PhotonInfo_ctor_def)
  from kdtree_get_pt_defined [OF h] z h show ?thesis by simp
qed

text \<open>
  C2. For an index below \<open>kdtree_get_point_count\<close> and a query array of three
  coordinates, \<open>kdtree_distance\<close> is the sum of the squares of the three coordinate
  differences, where the coordinates subtracted are the very values that
  \<open>kdtree_get_pt\<close> returns for the dimensions 0, 1 and 2. A square is the product of
  a difference with itself and the sum is taken from left to right, as the code does.
\<close>

theorem kdtree_distance_squared_euclidean:
  fixes m :: "('a::{minus,plus,times}) PhotonMapper"
  assumes "idx < kdtree_get_point_count m"
  shows "\<exists>a b c. kdtree_get_pt m idx 0 = Some a \<and>
                 kdtree_get_pt m idx 1 = Some b \<and>
                 kdtree_get_pt m idx 2 = Some c \<and>
                 kdtree_distance m [p0, p1, p2] idx sz =
                   Some ((p0 - a) * (p0 - a) + (p1 - b) * (p1 - b) + (p2 - c) * (p2 - c))"
  using assms
  by (simp add: kdtree_get_pt_def kdtree_distance_def kdtree_get_point_count_def
      at_index_def Let_def)

theorem kdtree_distance_squared_euclidean_witness:
  "(0::nat) < kdtree_get_point_count example_mapper \<and>
   kdtree_get_pt example_mapper 0 0 = Some 1 \<and>
   kdtree_get_pt example_mapper 0 1 = Some 2 \<and>
   kdtree_get_pt example_mapper 0 2 = Some 3 \<and>
   kdtree_distance example_mapper [2, 4, 6] 0 3 = Some 14"
proof -
  have h: "(0::nat) < kdtree_get_point_count example_mapper"
    by (simp add: kdtree_get_point_count_def example_mapper_def example_photons_def)
  have g: "kdtree_get_pt example_mapper 0 0 = Some 1"
          "kdtree_get_pt example_mapper 0 1 = Some 2"
          "kdtree_get_pt example_mapper 0 2 = Some 3"
    by (simp_all add: kdtree_get_pt_def at_index_def example_mapper_def
        example_photons_def PhotonInfo_ctor_def)
  from kdtree_distance_squared_euclidean [OF h, of 2 4 6 3] g h show ?thesis by auto
qed

text \<open>
  C8. In every state of a \<open>PhotonMapper\<close> and of a \<open>PointCloud\<close>, and for every box
  passed in, \<open>kdtree_get_bbox\<close> answers \<open>False\<close> and leaves the box as it was; the
  build therefore never keeps a box of the adapter and always runs the standard
  computation.
\<close>

theorem kdtree_get_bbox_false:
  "kdtree_get_bbox m bb = (False, bb) \<and>
   PointCloud_kdtree_get_bbox c bb = (False, bb) \<and>
   build_bounding_box kdtree_get_bbox standard m bb = standard m \<and>
   build_bounding_box PointCloud_kdtree_get_bbox standard' c bb = standard' c"
  by (simp add: kdtree_get_bbox_def PointCloud_kdtree_get_bbox_def build_bounding_box_def)

section \<open>The two adapters agree\<close>

text \<open>
  C9. When a \<open>PointCloud\<close> and a \<open>PhotonMapper\<close> store the same sequence of positions
  (the points are the positions of the photon records, in order), the two adapters give
  the same point count, the same \<open>kdtree_get_pt\<close> at every index and dimension, and the
  same \<open>kdtree_distance\<close> for every query array and index; outside the stored range
  both are undefined.
\<close>

theorem adapters_equivalent:
  fixes m :: "('a::{minus,plus,times}) PhotonMapper"
  assumes "pts c = map (\<lambda>g. Point_ctor (position g)) (gathered_photons m)"
  shows "PointCloud_kdtree_get_point_count c = kdtree_get_point_count m \<and>
         (\<forall>idx d. PointCloud_kdtree_get_pt c idx d = kdtree_get_pt m idx d) \<and>
         (\<forall>p idx sz. PointCloud_kdtree_distance c p idx sz = kdtree_distance m p idx sz)"
proof (intro conjI allI)
  show "PointCloud_kdtree_get_point_count c = kdtree_get_point_count m"
    using assms by (simp add: PointCloud_kdtree_get_point_count_def kdtree_get_point_count_def)
next
  fix idx :: nat and d :: "32 word"
  show "PointCloud_kdtree_get_pt c idx d = kdtree_get_pt m idx d"
    using assms
    by (simp add: PointCloud_kdtree_get_pt_def kdtree_get_pt_def at_index_def Point_ctor_def)
next
  fix p :: "'a list" and idx sz :: nat
  show "PointCloud_kdtree_distance c p idx sz = kdtree_distance m p idx sz"
    using assms
    by (simp add: PointCloud_kdtree_distance_def kdtree_distance_def at_index_def
        Point_ctor_def)
qed

theorem adapters_equivalent_witness:
  "pts example_cloud = map (\<lambda>g. Point_ctor (position g)) (gathered_photons example_mapper) \<and>
   PointCloud_kdtree_get_point_count example_cloud = 2 \<and>
   kdtree_get_point_count example_mapper = 2 \<and>
   PointCloud_kdtree_get_pt example_cloud 1 1 = Some 5 \<and>
   kdtree_get_pt example_mapper 1 1 = Some 5 \<and>
   PointCloud_kdtree_distance example_cloud [0, 0, 0] 1 3 = Some 77 \<and>
   kdtree_distance example_mapper [0, 0, 0] 1 3 = Some 77 \<and>
   PointCloud_kdtree_distance example_cloud [0, 0, 0] 2 3 = None \<and>
   kdtree_distance example_mapper [0, 0, 0] 2 3 = None"
proof -
  have h: "pts example_cloud =
      map (\<lambda>g. Point_ctor (position g)) (gathered_photons example_mapper)"
    by (simp add: example_cloud_def example_mapper_def)
  have n: "kdtree_get_point_count example_mapper = 2"
    by (simp add: kdtree_get_point_count_def example_mapper_def example_photons_def)
  have g: "kdtree_get_pt example_mapper 1 1 = Some 5"
    by (simp add: kdtree_get_pt_def at_index_def example_mapper_def example_photons_def
        PhotonInfo_ctor_def)
  have d: "kdtree_distance example_mapper [0, 0, 0] 1 3 = Some 77"
    by (simp add: kdtree_distance_def at_index_def example_mapper_def example_photons_def
        PhotonInfo_ctor_def)
  have e: "kdtree_distance example_mapper [0, 0, 0] 2 3 = None"
    by (simp add: kdtree_distance_out_of_range n)
  from adapters_equivalent [OF h] n g d e h show ?thesis by simp
qed

section \<open>The k-nearest query\<close>

lemma squared_distances_fst:
  "map fst (squared_distances m point) = [0..<kdtree_get_point_count m]"
  unfolding squared_distances_def kdtree_get_point_count_def
  by (rule nth_equalityI) (auto simp: List.map_filter_def kdtree_distance_in_range)

lemma squared_distances_snd:
  assumes "(i, d) \<in> set (squared_distances m point)"
  shows "kdtree_distance m [vec_x point, vec_y point, vec_z point] i 3 = Some d"
  using assms by (auto simp: squared_distances_def List.map_filter_def)

lemma length_squared_distances:
  "length (squared_distances m point) = kdtree_get_point_count m"
  using arg_cong [OF squared_distances_fst, of length m point] by simp

lemma findNNearestPoints_in_range:
  assumes "i \<in> set (fst (findNNearestPoints pm point k))"
  shows "i < kdtree_get_point_count (PhotonMap_p pm)"
proof -
  from assms have "i \<in> set (map fst (take (unat k)
      (sort_key snd (squared_distances (PhotonMap_p pm) point))))"
    by (simp add: findNNearestPoints_def Let_def)
  then have "i \<in> set (map fst (sort_key snd (squared_distances (PhotonMap_p pm) point)))"
    by (metis in_set_takeD take_map)
  then have "i \<in> set (map fst (squared_distances (PhotonMap_p pm) point))"
    by simp
  then show ?thesis
    by (simp add: squared_distances_fst)
qed

text \<open>
  The records returned are the closest ones: a record that is not returned is at least as
  far from the query point as every record that is.
\<close>

lemma findNNearestPoints_closest:
  fixes pm :: "('a::{minus,plus,times,linorder}) PhotonMap"
  assumes res: "findNNearestPoints pm point k = (ret_index, out_dist_sqr)"
    and i: "i < kdtree_get_point_count (PhotonMap_p pm)" "i \<notin> set ret_index"
    and d: "kdtree_distance (PhotonMap_p pm) [vec_x point, vec_y point, vec_z point] i 3
              = Some d"
    and d': "d' \<in> set out_dist_sqr"
  shows "d' \<le> d"
proof -
  define s where "s = sort_key snd (squared_distances (PhotonMap_p pm) point)"
  have ri: "ret_index = map fst (take (unat k) s)"
    and od: "out_dist_sqr = map snd (take (unat k) s)"
    using res by (simp_all add: findNNearestPoints_def s_def Let_def)
  have "i \<in> set (map fst (squared_distances (PhotonMap_p pm) point))"
    using i(1) by (simp add: squared_distances_fst)
  then obtain d0 where d0: "(i, d0) \<in> set (squared_distances (PhotonMap_p pm) point)"
    by auto
  with d have "d0 = d"
    using squared_distances_snd [OF d0] by simp
  with d0 have "(i, d) \<in> set s"
    by (simp add: s_def)
  then have "(i, d) \<in> set (take (unat k) s) \<union> set (drop (unat k) s)"
    by (metis append_take_drop_id set_append)
  moreover have "(i, d) \<notin> set (take (unat k) s)"
    using i(2) unfolding ri by force
  ultimately have later: "d \<in> set (map snd (drop (unat k) s))"
    by force
  have "sorted (map snd s)"
    unfolding s_def by (rule sorted_sort_key)
  then have "sorted (map snd (take (unat k) s) @ map snd (drop (unat k) s))"
    by (metis append_take_drop_id map_append)
  then show ?thesis
    using d' later unfolding od sorted_append by blast
qed

text \<open>
  C1. On a photon map over \<open>n\<close> stored records, for every query point and every
  requested count \<open>k\<close>, \<open>findNNearestPoints\<close> returns \<open>min k n\<close> indices and as many
  squared distances; the distances are in non-decreasing order, the indices are distinct,
  and the distance at each place is the squared distance of the record at that place
  from the query point.
\<close>

theorem findNNearestPoints_sorted:
  fixes pm :: "('a::{minus,plus,times,linorder}) PhotonMap"
  shows "case findNNearestPoints pm point k of (ret_index, out_dist_sqr) \<Rightarrow>
           length ret_index = min (unat k) (kdtree_get_point_count (PhotonMap_p pm)) \<and>
           length out_dist_sqr = min (unat k) (kdtree_get_point_count (PhotonMap_p pm)) \<and>
           sorted out_dist_sqr \<and>
           distinct ret_index \<and>
           (\<forall>j < length ret_index.
              kdtree_distance (PhotonMap_p pm) [vec_x point, vec_y point, vec_z point]
                (ret_index ! j) 3 = Some (out_dist_sqr ! j))"
proof -
  define m where "m = PhotonMap_p pm"
  define s where "s = sort_key snd (squared_distances m point)"
  define r where "r = take (unat k) s"
  have res: "findNNearestPoints pm point k = (map fst r, map snd r)"
    by (simp add: findNNearestPoints_def r_def s_def m_def Let_def)
  have len_s: "length s = kdtree_get_point_count m"
    by (simp add: s_def length_squared_distances)
  have len_r: "length r = min (unat k) (kdtree_get_point_count m)"
    by (simp add: r_def len_s min.commute)
  have "sorted (map snd s)"
    unfolding s_def by (rule sorted_sort_key)
  then have "sorted (take (unat k) (map snd s))"
    by (rule sorted_wrt_take)
  then have srt: "sorted (map snd r)"
    by (simp add: r_def take_map)
  have "distinct (map fst (squared_distances m point))"
    by (simp add: squared_distances_fst)
  then have "distinct (map fst s)"
    unfolding s_def by (metis distinct_map distinct_sort set_sort)
  then have "distinct (take (unat k) (map fst s))"
    by (rule distinct_take)
  then have dst: "distinct (map fst r)"
    by (simp add: r_def take_map)
  have pairs: "kdtree_distance m [vec_x point, vec_y point, vec_z point] (map fst r ! j) 3
      = Some (map snd r ! j)" if "j < length r" for j
  proof -
    have "r ! j \<in> set r" using that by simp
    then have "r ! j \<in> set s" unfolding r_def by (rule in_set_takeD)
    then have "(fst (r ! j), snd (r ! j)) \<in> set (squared_distances m point)"
      by (simp add: s_def)
    then show ?thesis using that by (simp add: squared_distances_snd)
  qed
  show ?thesis
    unfolding res using len_r srt dst pairs by (simp add: m_def)
qed

lemma example_squared_distances:
  "squared_distances example_mapper \<lparr>vec_x = 4, vec_y = 4, vec_z = 4\<rparr> = [(0, 14), (1, 5)]"
  by (simp add: squared_distances_def kdtree_get_point_count_def kdtree_distance_def
      at_index_def example_mapper_def example_photons_def PhotonInfo_ctor_def
      List.map_filter_def upt_conv_Cons)

theorem findNNearestPoints_sorted_witness:
  "findNNearestPoints (PhotonMap_ctor example_mapper) \<lparr>vec_x = 4, vec_y = 4, vec_z = 4\<rparr> 5
     = ([1, 0], [5, 14]) \<and>
   length [1, 0 :: nat] = min (unat (5 :: 32 word)) (kdtree_get_point_count example_mapper) \<and>
   sorted [5, 14 :: real] \<and>
   kdtree_distance example_mapper [4, 4, 4] 1 3 = Some 5 \<and>
   kdtree_distance example_mapper [4, 4, 4] 0 3 = Some 14"
proof -
  have ev: "findNNearestPoints (PhotonMap_ctor example_mapper)
      \<lparr>vec_x = 4, vec_y = 4, vec_z = 4\<rparr> 5 = ([1, 0], [5, 14])"
    by (simp add: findNNearestPoints_def PhotonMap_ctor_def example_squared_distances Let_def)
  have n: "kdtree_get_point_count example_mapper = 2"
    by (simp add: kdtree_get_point_count_def example_mapper_def example_photons_def)
  have d: "kdtree_distance example_mapper [4, 4, 4] 1 3 = Some 5"
          "kdtree_distance example_mapper [4, 4, 4] 0 3 = Some 14"
    by (simp_all add: kdtree_distance_def at_index_def example_mapper_def
        example_photons_def PhotonInfo_ctor_def)
  from findNNearestPoints_sorted
    [where pm = "PhotonMap_ctor example_mapper"
       and point = "\<lparr>vec_x = 4, vec_y = 4, vec_z = 4\<rparr>" and k = 5] n d
  show ?thesis
    unfolding ev by (simp add: PhotonMap_ctor_def)
qed

section \<open>The gather\<close>

lemma sum_energy_none_visible:
  assumes "\<forall>i \<in> set is. i < length (gathered_photons m) \<and>
             \<not> visible_hemisphere normal (direction (gathered_photons m ! i))"
  shows "sum_energy m normal acc is = Some acc"
  using assms
  by (induction "is" arbitrary: acc) (simp_all add: getDirection_def getEnergy_def at_index_def)

lemma sum_energy_defined:
  assumes "\<forall>i \<in> set is. i < length (gathered_photons m)"
  shows "\<exists>e. sum_energy m normal acc is = Some e"
  using assms
  by (induction "is" arbitrary: acc) (simp_all add: getDirection_def getEnergy_def at_index_def)

lemma clamped_area_nonzero: "0 < (floor_area :: real) \<Longrightarrow> max floor_area a \<noteq> 0"
  by (simp add: max_def)

text \<open>With a positive floor under the area, the gather always yields a radiance.\<close>

lemma gatherPhotons_defined:
  assumes "0 < min_area cfg"
  shows "\<exists>r. fst (gatherPhotons cfg pm point normal) = Some r"
proof -
  obtain ret_index out_dist_sqr
    where r: "findNNearestPoints pm point (neighbours cfg) = (ret_index, out_dist_sqr)"
    by (cases "findNNearestPoints pm point (neighbours cfg)")
  have "\<forall>i \<in> set ret_index. i < length (gathered_photons (PhotonMap_p pm))"
    using findNNearestPoints_in_range [of _ pm point "neighbours cfg"] r
    by (simp add: kdtree_get_point_count_def)
  then obtain e where "sum_energy (PhotonMap_p pm) normal vec3_zero ret_index = Some e"
    using sum_energy_defined by blast
  then show ?thesis
    using clamped_area_nonzero [OF assms] by (simp add: gatherPhotons_def r)
qed

text \<open>
  A gather that is not black: the nearest photon to \<open>(4, 4, 4)\<close> arrives against the
  normal \<open>(0, 0, -1)\<close>, and its energy is spread over the disk of squared radius 5.
\<close>

lemma gatherPhotons_example:
  "fst (gatherPhotons example_settings (PhotonMap_ctor example_mapper)
          \<lparr>vec_x = 4, vec_y = 4, vec_z = 4\<rparr> \<lparr>vec_x = 0, vec_y = 0, vec_z = - 1\<rparr>)
     = Some \<lparr>vec_x = 1 / (10 * pi), vec_y = 1 / (20 * pi), vec_z = 0\<rparr>"
proof -
  have q: "findNNearestPoints (PhotonMap_ctor example_mapper)
      \<lparr>vec_x = 4, vec_y = 4, vec_z = 4\<rparr> (neighbours example_settings) = ([1], [5])"
    by (simp add: findNNearestPoints_def PhotonMap_ctor_def example_squared_distances
        Let_def example_settings_def)
  have e: "sum_energy example_mapper \<lparr>vec_x = 0, vec_y = 0, vec_z = - 1\<rparr> vec3_zero [Suc 0]
      = Some \<lparr>vec_x = 1/2, vec_y = 1/4, vec_z = 0\<rparr>"
    by (simp add: getDirection_def getEnergy_def at_index_def example_mapper_def
        example_photons_def PhotonInfo_ctor_def visible_hemisphere_def vec3_dot_def
        vec3_neg_def vec3_add_def vec3_zero_def)
  have a: "max (min_area example_settings) (pi * 5) = 5 * pi"
    using pi_ge_two by (simp add: example_settings_def max_def)
  have m: "PhotonMap_p (PhotonMap_ctor example_mapper) = example_mapper"
    by (simp add: PhotonMap_ctor_def)
  show ?thesis
    unfolding gatherPhotons_def q m
    using pi_ge_two by (simp add: e a vec3_div_def Let_def del: sum_energy.simps)
qed

text \<open>
  C4. With a positive floor under the disk area, for every query point and normal: when
  the index stores no photon record, or when none of the photons returned by the query
  passes the hemisphere filter against the normal, \<open>gatherPhotons\<close> does not fail and
  returns the zero radiance \<open>(0, 0, 0)\<close>.
\<close>

theorem gatherPhotons_black:
  assumes "0 < min_area cfg"
    and "kdtree_get_point_count (PhotonMap_p pm) = 0 \<or>
         (\<forall>i \<in> set (fst (findNNearestPoints pm point (neighbours cfg))).
            \<not> visible_hemisphere normal (direction (gathered_photons (PhotonMap_p pm) ! i)))"
  shows "fst (gatherPhotons cfg pm point normal) = Some \<lparr>vec_x = 0, vec_y = 0, vec_z = 0\<rparr>"
proof -
  obtain ret_index out_dist_sqr
    where r: "findNNearestPoints pm point (neighbours cfg) = (ret_index, out_dist_sqr)"
    by (cases "findNNearestPoints pm point (neighbours cfg)")
  have rng: "\<forall>i \<in> set ret_index. i < length (gathered_photons (PhotonMap_p pm))"
    using findNNearestPoints_in_range [of _ pm point "neighbours cfg"] r
    by (simp add: kdtree_get_point_count_def)
  have "\<forall>i \<in> set ret_index.
          \<not> visible_hemisphere normal (direction (gathered_photons (PhotonMap_p pm) ! i))"
    using assms(2) rng r by (auto simp: kdtree_get_point_count_def)
  with rng have "sum_energy (PhotonMap_p pm) normal vec3_zero ret_index = Some vec3_zero"
    by (intro sum_energy_none_visible) simp
  then show ?thesis
    using clamped_area_nonzero [OF assms(1)]
    by (simp add: gatherPhotons_def r vec3_div_def vec3_zero_def)
qed

theorem gatherPhotons_black_witness:
  "0 < min_area example_settings \<and>
   kdtree_get_point_count (PhotonMap_p (PhotonMap_ctor empty_mapper)) = 0 \<and>
   fst (gatherPhotons example_settings (PhotonMap_ctor empty_mapper)
          \<lparr>vec_x = 4, vec_y = 4, vec_z = 4\<rparr> \<lparr>vec_x = 0, vec_y = 0, vec_z = 1\<rparr>)
     = Some \<lparr>vec_x = 0, vec_y = 0, vec_z = 0\<rparr> \<and>
   fst (findNNearestPoints (PhotonMap_ctor example_mapper)
          \<lparr>vec_x = 4, vec_y = 4, vec_z = 4\<rparr> (neighbours example_settings)) = [1] \<and>
   \<not> visible_hemisphere \<lparr>vec_x = 0, vec_y = 0, vec_z = 1\<rparr>
       (direction (gathered_photons example_mapper ! 1)) \<and>
   fst (gatherPhotons example_settings (PhotonMap_ctor example_mapper)
          \<lparr>vec_x = 4, vec_y = 4, vec_z = 4\<rparr> \<lparr>vec_x = 0, vec_y = 0, vec_z = 1\<rparr>)
     = Some \<lparr>vec_x = 0, vec_y = 0, vec_z = 0\<rparr>"
proof -
  have a: "0 < min_area example_settings"
    by (simp add: example_settings_def)
  have e: "kdtree_get_point_count (PhotonMap_p (PhotonMap_ctor empty_mapper)) = 0"
    by (simp add: kdtree_get_point_count_def PhotonMap_ctor_def empty_mapper_def)
  have q: "fst (findNNearestPoints (PhotonMap_ctor example_mapper)
      \<lparr>vec_x = 4, vec_y = 4, vec_z = 4\<rparr> (neighbours example_settings)) = [1]"
    by (simp add: findNNearestPoints_def PhotonMap_ctor_def example_squared_distances
        Let_def example_settings_def)
  have v: "\<not> visible_hemisphere \<lparr>vec_x = 0, vec_y = 0, vec_z = 1\<rparr>
      (direction (gathered_photons example_mapper ! 1))"
    by (simp add: visible_hemisphere_def vec3_dot_def vec3_neg_def example_mapper_def
        example_photons_def PhotonInfo_ctor_def)
  have f: "\<forall>i \<in> set (fst (findNNearestPoints (PhotonMap_ctor example_mapper)
        \<lparr>vec_x = 4, vec_y = 4, vec_z = 4\<rparr> (neighbours example_settings))).
      \<not> visible_hemisphere \<lparr>vec_x = 0, vec_y = 0, vec_z = 1\<rparr>
          (direction (gathered_photons (PhotonMap_p (PhotonMap_ctor example_mapper)) ! i))"
    using v unfolding q by (simp add: PhotonMap_ctor_def)
  from gatherPhotons_black [OF a disjI1, OF e]
       gatherPhotons_black [OF a disjI2, OF f] a e q v
  show ?thesis by simp
qed

section \<open>The allocation of photons to lights\<close>














section \<open>A new photon\<close>


end
